theory Spec2Isabelle
  imports Complex_Main "HOL-Library.Log_Nat"
begin

section \<open>Go's float64\<close>

text \<open>
  The scores of both packages are Go \<^verbatim>\<open>float64\<close> values, that is IEEE 754 binary64 numbers.
  A finite binary64 value is a rational number, so the model keeps \<open>rat\<close> as the carrier and
  rounds after every literal, conversion and arithmetic operation, to nearest with ties to
  even, on a significand of 53 bits; below the normal range the spacing stays at \<open>2^-1074\<close>.
  Every operation rounds on its own: the model has no fused multiply-add, which Go allows a
  compiler to use and which the default amd64 target does not use. Overflow to an infinity
  is not modelled: the only unbounded operand of the source is a slice length, which is
  below \<open>2^63\<close>. No NaN can arise, because every operand is a literal or a slice length.
\<close>

type_synonym float64 = rat

definition pow2 :: "int \<Rightarrow> rat" where
  "pow2 k = (if 0 \<le> k then 2 ^ nat k else 1 / 2 ^ nat (- k))"

definition ilog2 :: "rat \<Rightarrow> int" where
  \<comment> \<open>\<open>\<lfloor>log\<^sub>2 x\<rfloor>\<close> for \<open>0 < x\<close>, from the bit lengths of numerator and denominator\<close>
  "ilog2 x = (case quotient_of x of (p, q) \<Rightarrow>
     (let k = bitlen p - bitlen q in if pow2 k \<le> x then k else k - 1))"

definition round_even :: "rat \<Rightarrow> int" where
  \<comment> \<open>the nearest integer, the even one at a tie\<close>
  "round_even x = (let f = \<lfloor>x\<rfloor>; d = x - of_int f in
     if d < 1 / 2 then f
     else if 1 / 2 < d then f + 1
     else if even f then f else f + 1)"

definition ulp :: "rat \<Rightarrow> rat" where
  \<comment> \<open>the spacing of binary64 values around a nonzero \<open>x\<close>\<close>
  "ulp x = pow2 (max (ilog2 \<bar>x\<bar> - 52) (- 1074))"

definition fl :: "rat \<Rightarrow> float64" where
  "fl x = (if x = 0 then 0 else of_int (round_even (x / ulp x)) * ulp x)"

definition fadd :: "float64 \<Rightarrow> float64 \<Rightarrow> float64" where
  "fadd x y = fl (x + y)"

definition fsub :: "float64 \<Rightarrow> float64 \<Rightarrow> float64" where
  "fsub x y = fl (x - y)"

definition fmul :: "float64 \<Rightarrow> float64 \<Rightarrow> float64" where
  "fmul x y = fl (x * y)"

definition float64_of_len :: "nat \<Rightarrow> float64" where
  \<comment> \<open>the conversion \<^verbatim>\<open>float64(len(xs))\<close>\<close>
  "float64_of_len n = fl (of_nat n)"

section \<open>Go's time.Time\<close>

text \<open>
  A \<^verbatim>\<open>time.Time\<close> is modelled as an instant: the number of nanoseconds since the zero
  time (January 1 of year 1, 00:00:00 UTC), which is the value of an unset field.
  \<^verbatim>\<open>IsZero\<close> and \<^verbatim>\<open>Before\<close> compare instants. The calendar arithmetic of
  \<^verbatim>\<open>AddDate\<close> and the layout-driven \<^verbatim>\<open>Format\<close> belong to Go's standard library; the functions
  that call them take them as parameters. Each call of \<^verbatim>\<open>time.Now()\<close> is one reading of a
  clock, which the functions take as a parameter too: \<open>clk k\<close> is the \<open>k\<close>-th reading
  made during one call of an exported operation.
\<close>

type_synonym time = int

type_synonym clock = "nat \<Rightarrow> time"

type_synonym add_date = "time \<Rightarrow> int \<Rightarrow> int \<Rightarrow> int \<Rightarrow> time"

type_synonym format = "time \<Rightarrow> string \<Rightarrow> string"

definition IsZero :: "time \<Rightarrow> bool" where
  "IsZero t = (t = 0)"

definition Before :: "time \<Rightarrow> time \<Rightarrow> bool" where
  "Before t u = (t < u)"

section \<open>Package control: the control registry\<close>

text \<open>
  \<^verbatim>\<open>ControlCategory\<close>, \<^verbatim>\<open>ControlType\<close> and \<^verbatim>\<open>ControlStatus\<close> are string types in the source, so
  a status field can hold any string, not only one of the four declared constants.
\<close>

type_synonym ControlCategory = string
type_synonym ControlType = string
type_synonym ControlStatus = string

definition StatusImplemented :: ControlStatus where
  "StatusImplemented = ''implemented''"

definition StatusPartiallyImplemented :: ControlStatus where
  "StatusPartiallyImplemented = ''partially_implemented''"

definition StatusNotImplemented :: ControlStatus where
  "StatusNotImplemented = ''not_implemented''"

definition StatusDeprecated :: ControlStatus where
  "StatusDeprecated = ''deprecated''"

record SecurityControl =
  ID :: string
  Name :: string
  Description :: string
  Category :: ControlCategory
  Type :: ControlType
  SubCategory :: string
  RiskReduction :: float64
  Implementation :: string
  Verification :: string
  Maintenance :: string
  Owner :: string
  Status :: ControlStatus
  LastVerified :: time
  NextReview :: time
  Evidence :: "string list"
  References :: "string list"

text \<open>
  The fields of \<^verbatim>\<open>ControlValidationResult\<close> that share a name with a field of
  \<^verbatim>\<open>SecurityControl\<close> carry the suffix \<open>_res\<close>.
\<close>

record ControlValidationResult =
  ControlID :: string
  ControlName :: string
  Status_res :: string
  Effectiveness :: float64
  Confidence :: float64
  Issues :: "string list"
  Evidence_res :: "string list"
  Recommendations :: "string list"
  ValidatedAt :: time

record ControlValidator =
  controls :: "SecurityControl list"
  results :: "ControlValidationResult list"

definition NewControlValidator :: ControlValidator where
  "NewControlValidator = \<lparr>controls = [], results = []\<rparr>"

definition AddControl :: "ControlValidator \<Rightarrow> SecurityControl \<Rightarrow> ControlValidator" where
  "AddControl v control = v\<lparr>controls := controls v @ [control]\<rparr>"

definition GetValidationResults :: "ControlValidator \<Rightarrow> ControlValidationResult list" where
  "GetValidationResults v = results v"

text \<open>
  \<^verbatim>\<open>getControlByID\<close> scans the slice from index 0 and returns a pointer to the first element
  with the requested id, or nil. The callers only read through the pointer.
\<close>

fun getControlByID_loop :: "SecurityControl list \<Rightarrow> string \<Rightarrow> SecurityControl option" where
  "getControlByID_loop [] ident = None"
| "getControlByID_loop (c # cs) ident =
     (if ID c = ident then Some c else getControlByID_loop cs ident)"

definition getControlByID :: "ControlValidator \<Rightarrow> string \<Rightarrow> SecurityControl option" where
  "getControlByID v ident = getControlByID_loop (controls v) ident"

text \<open>The helper methods below do not use their receiver; the model leaves it out.\<close>

definition validateControlImplementation :: "SecurityControl \<Rightarrow> float64" where
  "validateControlImplementation control =
     (let effective = fl (7 / 10) in
      if Status control = StatusImplemented then fl (9 / 10)
      else if Status control = StatusPartiallyImplemented then fl (6 / 10)
      else if Status control = StatusNotImplemented then fl 0
      else effective)"

definition identifyIssues :: "add_date \<Rightarrow> SecurityControl \<Rightarrow> time \<Rightarrow> string list" where
  "identifyIssues addDate control now =
     (let issues = [];
          issues = (if length (Evidence control) = 0
                    then issues @ [''No evidence provided for control implementation'']
                    else issues);
          issues = (if IsZero (LastVerified control)
                       \<or> Before (LastVerified control) (addDate now 0 (- 6) 0)
                    then issues @ [''Control not verified in last 6 months'']
                    else issues);
          issues = (if Owner control = []
                    then issues @ [''Control owner not assigned'']
                    else issues)
      in issues)"

text \<open>
  \<^verbatim>\<open>calculateConfidence\<close> in two parts: \<open>confidence_unclamped\<close> is the value of the local
  variable \<^verbatim>\<open>confidence\<close> after the two adjustments, \<open>clamp01\<close> is the pair of \<^verbatim>\<open>if\<close>
  statements that follows.
\<close>

definition confidence_unclamped :: "SecurityControl \<Rightarrow> string list \<Rightarrow> float64" where
  "confidence_unclamped control issues =
     (let confidence = fl (5 / 10);
          confidence = (if 0 < length (Evidence control)
                        then fadd confidence (fl (2 / 10)) else confidence);
          confidence = (if length issues = 0
                        then fadd confidence (fl (3 / 10))
                        else fsub confidence (fmul (float64_of_len (length issues)) (fl (1 / 10))))
      in confidence)"

definition clamp01 :: "float64 \<Rightarrow> float64" where
  "clamp01 confidence =
     (let confidence = (if confidence < fl 0 then fl 0 else confidence);
          confidence = (if fl 1 < confidence then fl 1 else confidence)
      in confidence)"

definition calculateConfidence :: "SecurityControl \<Rightarrow> string list \<Rightarrow> float64" where
  "calculateConfidence control issues = clamp01 (confidence_unclamped control issues)"

definition recommendation :: "string \<Rightarrow> string" where
  \<comment> \<open>the \<^verbatim>\<open>switch\<close> in the body of the loop of \<^verbatim>\<open>generateRecommendations\<close>\<close>
  "recommendation issue =
     (if issue = ''No evidence provided for control implementation''
      then ''Provide evidence of control implementation''
      else if issue = ''Control not verified in last 6 months''
      then ''Schedule control verification''
      else if issue = ''Control owner not assigned''
      then ''Assign control owner''
      else ''Address: '' @ issue)"

fun generateRecommendations_loop :: "string list \<Rightarrow> string list \<Rightarrow> string list" where
  "generateRecommendations_loop recommendations [] = recommendations"
| "generateRecommendations_loop recommendations (issue # issues) =
     generateRecommendations_loop (recommendations @ [recommendation issue]) issues"

definition generateRecommendations :: "SecurityControl \<Rightarrow> string list \<Rightarrow> string list" where
  "generateRecommendations control issues = generateRecommendations_loop [] issues"

text \<open>
  \<^verbatim>\<open>ValidateControl\<close> reads the clock once for \<^verbatim>\<open>ValidatedAt\<close> and once more inside
  \<^verbatim>\<open>identifyIssues\<close>. It returns the result (nil when the id is unknown) and the registry
  after the call. The source hands the pointer that \<^verbatim>\<open>getControlByID\<close> returned to helpers
  that are declared with a \<^verbatim>\<open>SecurityControl\<close> value as parameter; the model passes the
  control the pointer refers to.
\<close>

definition ValidateControl ::
  "add_date \<Rightarrow> ControlValidator \<Rightarrow> string \<Rightarrow> clock
     \<Rightarrow> ControlValidationResult option \<times> ControlValidator" where
  "ValidateControl addDate v controlID clk =
     (case getControlByID v controlID of
        None \<Rightarrow> (None, v)
      | Some control \<Rightarrow>
          (let result = \<lparr>ControlID = ID control, ControlName = Name control,
                          Status_res = ''VALIDATING'', Effectiveness = fl 0, Confidence = fl 0,
                          Issues = [], Evidence_res = [], Recommendations = [],
                          ValidatedAt = clk 0\<rparr>;
               effective = validateControlImplementation control;
               result = result\<lparr>Effectiveness := effective\<rparr>;
               issues = identifyIssues addDate control (clk 1);
               result = result\<lparr>Issues := issues\<rparr>;
               confidence = calculateConfidence control issues;
               result = result\<lparr>Confidence := confidence\<rparr>;
               recommendations = generateRecommendations control issues;
               result = result\<lparr>Recommendations := recommendations\<rparr>;
               result = (if length issues = 0 \<and> fl (9 / 10) \<le> effective
                         then result\<lparr>Status_res := ''EFFECTIVE''\<rparr>
                         else if fl (7 / 10) \<le> effective
                         then result\<lparr>Status_res := ''PARTIALLY_EFFECTIVE''\<rparr>
                         else result\<lparr>Status_res := ''INEFFECTIVE''\<rparr>)
           in (Some result, v\<lparr>results := results v @ [result]\<rparr>)))"

text \<open>
  The unexported \<^verbatim>\<open>validateControl\<close> computes the same result from a control that is already
  at hand, and stores nothing.
\<close>

definition validateControl :: "add_date \<Rightarrow> SecurityControl \<Rightarrow> clock \<Rightarrow> ControlValidationResult" where
  "validateControl addDate control clk =
     (let result = \<lparr>ControlID = ID control, ControlName = Name control,
                     Status_res = ''VALIDATING'', Effectiveness = fl 0, Confidence = fl 0,
                     Issues = [], Evidence_res = [], Recommendations = [],
                     ValidatedAt = clk 0\<rparr>;
          effective = validateControlImplementation control;
          result = result\<lparr>Effectiveness := effective\<rparr>;
          issues = identifyIssues addDate control (clk 1);
          result = result\<lparr>Issues := issues\<rparr>;
          confidence = calculateConfidence control issues;
          result = result\<lparr>Confidence := confidence\<rparr>;
          recommendations = generateRecommendations control issues;
          result = result\<lparr>Recommendations := recommendations\<rparr>;
          result = (if length issues = 0 \<and> fl (9 / 10) \<le> effective
                    then result\<lparr>Status_res := ''EFFECTIVE''\<rparr>
                    else if fl (7 / 10) \<le> effective
                    then result\<lparr>Status_res := ''PARTIALLY_EFFECTIVE''\<rparr>
                    else result\<lparr>Status_res := ''INEFFECTIVE''\<rparr>)
      in result)"


section \<open>Package validate: the test registry\<close>

text \<open>
  Package validate declares its own \<^verbatim>\<open>ControlValidator\<close>. Its types and fields carry the
  suffix \<open>_validate\<close> where the name is already taken by package control, and the fields of
  \<^verbatim>\<open>ControlTest\<close> and \<^verbatim>\<open>ValidationResult\<close> that would clash carry \<open>_test\<close> and \<open>_val\<close>.
\<close>

type_synonym ValidationMethod = string

record ControlTest =
  ID_test :: string
  Name_test :: string
  Description_test :: string
  Method :: ValidationMethod
  Steps :: "string list"
  ExpectedResult :: string
  ActualResult :: string
  Passed :: bool
  Notes :: string
  TestedAt :: time
  TestedBy :: string

record ControlValidation =
  ControlID_cv :: string
  Method_cv :: ValidationMethod
  Status_cv :: string
  Confidence_cv :: float64
  Issues_cv :: "string list"
  Evidence_cv :: "string list"
  ValidatedAt_cv :: time

record ValidationResult =
  ID_val :: string
  ControlID_val :: string
  ControlName_val :: string
  TestPassed :: bool
  ValidationResult_val :: string
  Effectiveness_val :: float64
  RiskRemaining :: float64
  Recommendations_val :: "string list"
  ValidatedAt_val :: time

record ControlValidator_validate =
  controls_validate :: "ControlTest list"
  validation_validate :: "ControlValidation list"
  results_validate :: "ValidationResult list"

definition NewControlValidator_validate :: ControlValidator_validate where
  "NewControlValidator_validate =
     \<lparr>controls_validate = [], validation_validate = [], results_validate = []\<rparr>"

definition AddControlTest :: "ControlValidator_validate \<Rightarrow> ControlTest \<Rightarrow> ControlValidator_validate" where
  "AddControlTest v test = v\<lparr>controls_validate := controls_validate v @ [test]\<rparr>"

definition GetResults :: "ControlValidator_validate \<Rightarrow> ValidationResult list" where
  "GetResults v = results_validate v"

text \<open>
  \<^verbatim>\<open>validateControlTest\<close> reads the clock twice, first for the id and then for
  \<^verbatim>\<open>ValidatedAt\<close>; \<open>now1\<close> and \<open>now2\<close> are the two readings.
\<close>

definition validateControlTest :: "format \<Rightarrow> ControlTest \<Rightarrow> time \<Rightarrow> time \<Rightarrow> ValidationResult" where
  "validateControlTest fmt test now1 now2 =
     (let passed = True;
          effectiveness = fl (8 / 10);
          result = \<lparr>ID_val = ''val-'' @ fmt now1 ''20060102150405'',
                     ControlID_val = ID_test test,
                     ControlName_val = Name_test test,
                     TestPassed = passed,
                     ValidationResult_val = ''PASS'',
                     Effectiveness_val = effectiveness,
                     RiskRemaining = fsub (fl 1) effectiveness,
                     Recommendations_val = [],
                     ValidatedAt_val = now2\<rparr>;
          result = (if \<not> passed
                    then result\<lparr>ValidationResult_val := ''FAIL'',
                                 Recommendations_val := Recommendations_val result
                                    @ [''Review and fix control implementation'']\<rparr>
                    else result)
      in result)"

text \<open>
  The loop of \<^verbatim>\<open>Validate\<close>: \<open>k\<close> counts the clock readings made so far, \<open>rs\<close> is the local
  slice \<^verbatim>\<open>results\<close>.
\<close>

fun Validate_loop ::
  "format \<Rightarrow> clock \<Rightarrow> nat \<Rightarrow> ValidationResult list \<Rightarrow> ControlTest list \<Rightarrow> ValidationResult list" where
  "Validate_loop fmt clk k rs [] = rs"
| "Validate_loop fmt clk k rs (test # tests) =
     Validate_loop fmt clk (k + 2)
       (rs @ [validateControlTest fmt test (clk k) (clk (k + 1))]) tests"

definition Validate ::
  "format \<Rightarrow> ControlValidator_validate \<Rightarrow> clock
     \<Rightarrow> ValidationResult list \<times> ControlValidator_validate" where
  "Validate fmt v clk =
     (let rs = Validate_loop fmt clk 0 [] (controls_validate v)
      in (rs, v\<lparr>results_validate := rs\<rparr>))"

section \<open>The built-in records\<close>

text \<open>
  \<^verbatim>\<open>CreateCommonControls\<close> reads the clock once per control; fields the literal leaves out
  hold their zero value.
\<close>

definition CategoryPreventive :: ControlCategory where
  "CategoryPreventive = ''preventive''"

definition CategoryDetective :: ControlCategory where
  "CategoryDetective = ''detective''"

definition CategoryCorrective :: ControlCategory where
  "CategoryCorrective = ''corrective''"

definition TypeTechnical :: ControlType where
  "TypeTechnical = ''technical''"

definition TypeAdministrative :: ControlType where
  "TypeAdministrative = ''administrative''"

definition CreateCommonControls :: "add_date \<Rightarrow> clock \<Rightarrow> SecurityControl list" where
  "CreateCommonControls addDate clk =
    [\<lparr>ID = ''ctrl-001'', Name = ''Access Control Policy'',
      Description = ''Policy governing access to systems and data'',
      Category = CategoryPreventive, Type = TypeAdministrative,
      SubCategory = ''Access Management'', RiskReduction = fl (3 / 10),
      Implementation = ''Documented access control policy enforced through IAM'',
      Verification = ''Review policy documents and access logs'',
      Maintenance = [], Owner = ''Security Team'', Status = StatusImplemented,
      LastVerified = addDate (clk 0) 0 (- 3) 0, NextReview = 0,
      Evidence = [''policy-access-control.pdf'', ''iam-configuration.json''],
      References = [''NIST-800-53-AC-1'']\<rparr>,
     \<lparr>ID = ''ctrl-002'', Name = ''Multi-Factor Authentication'',
      Description = ''MFA for all user access to systems'',
      Category = CategoryPreventive, Type = TypeTechnical,
      SubCategory = ''Authentication'', RiskReduction = fl (4 / 10),
      Implementation = ''MFA enforced for all user accounts'',
      Verification = ''Test MFA enforcement'',
      Maintenance = [], Owner = ''IT Operations'', Status = StatusImplemented,
      LastVerified = addDate (clk 1) 0 (- 1) 0, NextReview = 0,
      Evidence = [''mfa-configuration.json'', ''audit-log.json''],
      References = [''NIST-800-53-IA-2'']\<rparr>,
     \<lparr>ID = ''ctrl-003'', Name = ''Security Monitoring'',
      Description = ''Continuous security monitoring of systems'',
      Category = CategoryDetective, Type = TypeTechnical,
      SubCategory = ''Monitoring'', RiskReduction = fl (35 / 100),
      Implementation = ''SIEM and IDS/IPS deployed'',
      Verification = ''Review monitoring dashboards'',
      Maintenance = [], Owner = ''SOC Team'', Status = StatusImplemented,
      LastVerified = addDate (clk 2) 0 (- 2) 0, NextReview = 0,
      Evidence = [''siem-config.json'', ''monitoring-report.pdf''],
      References = [''NIST-800-53-AU-6'']\<rparr>,
     \<lparr>ID = ''ctrl-004'', Name = ''Incident Response Plan'',
      Description = ''Documented incident response procedures'',
      Category = CategoryCorrective, Type = TypeAdministrative,
      SubCategory = ''Incident Response'', RiskReduction = fl (25 / 100),
      Implementation = ''IR plan documented and tested'',
      Verification = ''Review IR plan and test results'',
      Maintenance = [], Owner = ''Security Team'', Status = StatusImplemented,
      LastVerified = addDate (clk 3) 0 (- 4) 0, NextReview = 0,
      Evidence = [''ir-plan.pdf'', ''test-results.pdf''],
      References = [''NIST-800-53-IR-1'']\<rparr>]"

definition MethodObservation :: ValidationMethod where
  "MethodObservation = ''observation''"

definition MethodTesting :: ValidationMethod where
  "MethodTesting = ''testing''"

definition CreateCommonControlTests :: "clock \<Rightarrow> ControlTest list" where
  "CreateCommonControlTests clk =
    [\<lparr>ID_test = ''test-001'', Name_test = ''Access Control Verification'',
      Description_test = ''Verify access control policies are enforced'',
      Method = MethodTesting,
      Steps = [''Attempt unauthorized access'', ''Verify access is denied'', ''Review access logs''],
      ExpectedResult = ''Unauthorized access denied'', ActualResult = [], Passed = True,
      Notes = ''All access controls functioning correctly'',
      TestedAt = clk 0, TestedBy = ''Security Team''\<rparr>,
     \<lparr>ID_test = ''test-002'', Name_test = ''Encryption Verification'',
      Description_test = ''Verify data encryption at rest and in transit'',
      Method = MethodTesting,
      Steps = [''Check encryption configuration'', ''Verify certificates'', ''Test data encryption''],
      ExpectedResult = ''Data encrypted correctly'', ActualResult = [], Passed = True,
      Notes = ''Encryption properly configured'',
      TestedAt = clk 1, TestedBy = ''Security Team''\<rparr>,
     \<lparr>ID_test = ''test-003'', Name_test = ''Monitoring Verification'',
      Description_test = ''Verify security monitoring is active'',
      Method = MethodObservation,
      Steps = [''Check monitoring dashboards'', ''Verify alert configuration'', ''Test alert generation''],
      ExpectedResult = ''Monitoring active and alerts working'', ActualResult = [], Passed = True,
      Notes = ''All monitoring systems operational'',
      TestedAt = clk 2, TestedBy = ''SOC Team''\<rparr>,
     \<lparr>ID_test = ''test-004'', Name_test = ''Backup Verification'',
      Description_test = ''Verify backup and recovery procedures'',
      Method = MethodTesting,
      Steps = [''Check backup status'', ''Test data restoration'', ''Verify recovery time''],
      ExpectedResult = ''Backups successful and recoverable'', ActualResult = [], Passed = True,
      Notes = ''Backup and recovery working correctly'',
      TestedAt = clk 3, TestedBy = ''IT Operations''\<rparr>]"

section \<open>An environment for running examples\<close>

text \<open>
  The theorems below hold for every clock, every \<^verbatim>\<open>AddDate\<close> and every \<^verbatim>\<open>Format\<close>. To run
  the operations on concrete registries, the examples use a clock that advances by one
  nanosecond per reading, months of thirty days, and a formatter that ignores the instant.
\<close>

definition example_clock :: "time \<Rightarrow> clock" where
  "example_clock start k = start + int k"

definition example_addDate :: add_date where
  "example_addDate t years months days =
     t + ((years * 12 + months) * 30 + days) * 86400000000000"

definition example_format :: format where
  "example_format t layout = layout"

definition example_start :: time where
  \<comment> \<open>an instant in the year 2026\<close>
  "example_start = 63900000000000000000"

definition common_controls :: "SecurityControl list" where
  "common_controls = CreateCommonControls example_addDate (example_clock example_start)"

definition common_registry :: ControlValidator where
  "common_registry = foldl AddControl NewControlValidator common_controls"

definition bare_control :: SecurityControl where
  \<comment> \<open>a control with nothing filled in but its id, name and status\<close>
  "bare_control =
     \<lparr>ID = ''ctrl-900'', Name = ''Unowned control'', Description = [],
      Category = CategoryPreventive, Type = TypeTechnical, SubCategory = [],
      RiskReduction = fl 0, Implementation = [], Verification = [], Maintenance = [],
      Owner = [], Status = StatusDeprecated, LastVerified = 0, NextReview = 0,
      Evidence = [], References = []\<rparr>"

definition common_tests :: ControlValidator_validate where
  "common_tests =
     foldl AddControlTest NewControlValidator_validate
       (CreateCommonControlTests (example_clock example_start))"

definition example_registry :: ControlValidator where
  \<comment> \<open>the built-in controls, the bare control, and a second control with the id \<^verbatim>\<open>ctrl-002\<close>\<close>
  "example_registry =
     AddControl (AddControl common_registry bare_control)
       (bare_control\<lparr>ID := ''ctrl-002'', Status := StatusNotImplemented\<rparr>)"

definition example_now :: clock where
  "example_now = example_clock (example_start + 1000)"




definition unlike_test :: ControlTest where
  \<comment> \<open>the id and name of the first built-in test, every other field different\<close>
  "unlike_test =
     \<lparr>ID_test = ''test-001'', Name_test = ''Access Control Verification'',
      Description_test = ''Changed'', Method = MethodObservation, Steps = [],
      ExpectedResult = ''Anything'', ActualResult = ''Access was granted'', Passed = False,
      Notes = ''The test failed'', TestedAt = 0, TestedBy = ''Nobody''\<rparr>"

section \<open>The specification's formulas\<close>





section \<open>Facts about the operations\<close>



lemma fl_literals:
  "fl (9 / 10) = 8106479329266893 / 9007199254740992"
  "fl (8 / 10) = 3602879701896397 / 4503599627370496"
  "fl (7 / 10) = 3152519739159347 / 4503599627370496"
  "fl (6 / 10) = 5404319552844595 / 9007199254740992"
  "fl (2 / 10) = 3602879701896397 / 18014398509481984"
  by code_simp+



lemma generateRecommendations_loop_map:
  "generateRecommendations_loop acc issues = acc @ map recommendation issues"
  by (induction issues arbitrary: acc) auto

text \<open>The exported operation is the lookup followed by the unexported one and an append.\<close>

lemma ValidateControl_found:
  "getControlByID v controlID = Some control \<Longrightarrow>
     ValidateControl addDate v controlID clk =
       (Some (validateControl addDate control clk),
        v\<lparr>results := results v @ [validateControl addDate control clk]\<rparr>)"
  by (simp add: ValidateControl_def validateControl_def Let_def)

lemma ValidateControl_missing:
  "getControlByID v controlID = None \<Longrightarrow> ValidateControl addDate v controlID clk = (None, v)"
  by (simp add: ValidateControl_def)

lemma validateControl_fields:
  "Effectiveness (validateControl addDate control clk) = validateControlImplementation control"
  "Issues (validateControl addDate control clk) = identifyIssues addDate control (clk 1)"
  "Confidence (validateControl addDate control clk) =
     calculateConfidence control (identifyIssues addDate control (clk 1))"
  "Recommendations (validateControl addDate control clk) =
     generateRecommendations control (identifyIssues addDate control (clk 1))"
  "ControlID (validateControl addDate control clk) = ID control"
  "ControlName (validateControl addDate control clk) = Name control"
  "ValidatedAt (validateControl addDate control clk) = clk 0"
  by (simp_all add: validateControl_def Let_def)


section \<open>Effectiveness and status label of a control\<close>





section \<open>Confidence\<close>




section \<open>Lookup by id\<close>



section \<open>Issues and recommendations\<close>

text \<open>
  Claim C8. The issues of a control are the concatenation, in this order, of at most one
  entry for each of three checks that do not depend on one another: the evidence list is
  empty; the last verification is unset or lies before the instant six months before now;
  the owner is the empty string. The recommendations are the issues mapped one by one
  through \<open>recommendation\<close>, which sends the three issue texts to their fixed
  recommendations and every other text to \<open>Address:\<close> followed by the text; so both lists
  have the same length, in every result of \<^verbatim>\<open>ValidateControl\<close> as well.
\<close>

theorem issues_and_recommendations:
  "identifyIssues addDate control now =
      (if Evidence control = [] then [''No evidence provided for control implementation''] else [])
    @ (if IsZero (LastVerified control) \<or> Before (LastVerified control) (addDate now 0 (- 6) 0)
       then [''Control not verified in last 6 months''] else [])
    @ (if Owner control = [] then [''Control owner not assigned''] else [])
   \<and> generateRecommendations control issues = map recommendation issues
   \<and> length (generateRecommendations control issues) = length issues
   \<and> recommendation ''No evidence provided for control implementation''
        = ''Provide evidence of control implementation''
   \<and> recommendation ''Control not verified in last 6 months'' = ''Schedule control verification''
   \<and> recommendation ''Control owner not assigned'' = ''Assign control owner''
   \<and> (issue \<notin> {''No evidence provided for control implementation'',
                  ''Control not verified in last 6 months'', ''Control owner not assigned''}
        \<longrightarrow> recommendation issue = ''Address: '' @ issue)
   \<and> (ValidateControl addDate v controlID clk = (Some r, v')
        \<longrightarrow> (\<exists>c. getControlByID v controlID = Some c \<and> Issues r = identifyIssues addDate c (clk 1))
            \<and> Recommendations r = map recommendation (Issues r)
            \<and> length (Recommendations r) = length (Issues r))"
proof -
  have gen: "generateRecommendations c xs = map recommendation xs" for c xs
    by (simp add: generateRecommendations_def generateRecommendations_loop_map)
  have 1: "identifyIssues addDate control now =
      (if Evidence control = [] then [''No evidence provided for control implementation''] else [])
    @ (if IsZero (LastVerified control) \<or> Before (LastVerified control) (addDate now 0 (- 6) 0)
       then [''Control not verified in last 6 months''] else [])
    @ (if Owner control = [] then [''Control owner not assigned''] else [])"
    by (simp add: identifyIssues_def Let_def)
  have 2: "recommendation ''No evidence provided for control implementation''
        = ''Provide evidence of control implementation''"
     "recommendation ''Control not verified in last 6 months'' = ''Schedule control verification''"
     "recommendation ''Control owner not assigned'' = ''Assign control owner''"
    by (simp_all add: recommendation_def)
  have 3: "issue \<notin> {''No evidence provided for control implementation'',
                  ''Control not verified in last 6 months'', ''Control owner not assigned''}
        \<longrightarrow> recommendation issue = ''Address: '' @ issue"
    by (simp add: recommendation_def)
  have 4: "ValidateControl addDate v controlID clk = (Some r, v')
        \<longrightarrow> (\<exists>c. getControlByID v controlID = Some c \<and> Issues r = identifyIssues addDate c (clk 1))
            \<and> Recommendations r = map recommendation (Issues r)
            \<and> length (Recommendations r) = length (Issues r)"
  proof (cases "getControlByID v controlID")
    case None
    then show ?thesis by (simp add: ValidateControl_missing)
  next
    case (Some c)
    then show ?thesis
      by (auto simp: ValidateControl_found validateControl_fields gen)
  qed
  from 1 2 3 4 gen show ?thesis by simp
qed

theorem issues_and_recommendations_witness:
  "''Disk is full'' \<notin> {''No evidence provided for control implementation'',
                  ''Control not verified in last 6 months'', ''Control owner not assigned''}
   \<and> recommendation ''Disk is full'' = ''Address: '' @ ''Disk is full''
   \<and> ValidateControl example_addDate example_registry ''ctrl-900'' example_now
       = (Some (validateControl example_addDate bare_control example_now),
          example_registry\<lparr>results := [validateControl example_addDate bare_control example_now]\<rparr>)
   \<and> Issues (validateControl example_addDate bare_control example_now)
       = [''No evidence provided for control implementation'',
          ''Control not verified in last 6 months'', ''Control owner not assigned'']
   \<and> Recommendations (validateControl example_addDate bare_control example_now)
       = [''Provide evidence of control implementation'', ''Schedule control verification'',
          ''Assign control owner'']
   \<and> length (Recommendations (validateControl example_addDate bare_control example_now))
       = length (Issues (validateControl example_addDate bare_control example_now))"
proof -
  have a: "''Disk is full'' \<notin> {''No evidence provided for control implementation'',
                  ''Control not verified in last 6 months'', ''Control owner not assigned''}"
    by simp
  have b: "ValidateControl example_addDate example_registry ''ctrl-900'' example_now
       = (Some (validateControl example_addDate bare_control example_now),
          example_registry\<lparr>results := [validateControl example_addDate bare_control example_now]\<rparr>)"
    by code_simp
  have c: "Issues (validateControl example_addDate bare_control example_now)
       = [''No evidence provided for control implementation'',
          ''Control not verified in last 6 months'', ''Control owner not assigned'']"
    by code_simp
  have e: "Recommendations (validateControl example_addDate bare_control example_now)
       = [''Provide evidence of control implementation'', ''Schedule control verification'',
          ''Assign control owner'']"
    by code_simp
  note inst = issues_and_recommendations
         [where issue = "''Disk is full''" and v = example_registry and controlID = "''ctrl-900''"
            and addDate = example_addDate and clk = example_now
            and r = "validateControl example_addDate bare_control example_now"
            and v' = "example_registry\<lparr>results :=
                        [validateControl example_addDate bare_control example_now]\<rparr>"]
  note tail = inst [THEN conjunct2, THEN conjunct2, THEN conjunct2, THEN conjunct2,
                    THEN conjunct2, THEN conjunct2]
  have d: "recommendation ''Disk is full'' = ''Address: '' @ ''Disk is full''"
    by (rule mp [OF conjunct1 [OF tail] a])
  have f: "length (Recommendations (validateControl example_addDate bare_control example_now))
       = length (Issues (validateControl example_addDate bare_control example_now))"
    by (rule conjunct2 [OF conjunct2 [OF mp [OF conjunct2 [OF tail] b]]])
  show ?thesis
    by (intro conjI) (rule a b c d e f)+
qed

section \<open>The test registry\<close>

lemma Validate_loop_map:
  "Validate_loop fmt clk k rs tests =
     rs @ map (\<lambda>i. validateControlTest fmt (tests ! i) (clk (k + 2 * i)) (clk (k + 2 * i + 1)))
            [0..<length tests]"
proof (induction tests arbitrary: k rs)
  case Nil
  show ?case by simp
next
  case (Cons t ts)
  show ?case
    by (simp add: Cons.IH map_upt_Suc del: upt_Suc)
qed

lemma Validate_map:
  "fst (Validate fmt v clk) =
     map (\<lambda>i. validateControlTest fmt (controls_validate v ! i) (clk (2 * i)) (clk (2 * i + 1)))
       [0..<length (controls_validate v)]"
  by (simp add: Validate_def Let_def Validate_loop_map)


lemma validateControlTest_fields:
  "TestPassed (validateControlTest fmt test now1 now2) = True"
  "ValidationResult_val (validateControlTest fmt test now1 now2) = ''PASS''"
  "Effectiveness_val (validateControlTest fmt test now1 now2) = fl (8 / 10)"
  "RiskRemaining (validateControlTest fmt test now1 now2) = fsub (fl 1) (fl (8 / 10))"
  "Recommendations_val (validateControlTest fmt test now1 now2) = []"
  "ControlID_val (validateControlTest fmt test now1 now2) = ID_test test"
  "ControlName_val (validateControlTest fmt test now1 now2) = Name_test test"
  "ID_val (validateControlTest fmt test now1 now2) = ''val-'' @ fmt now1 ''20060102150405''"
  "ValidatedAt_val (validateControlTest fmt test now1 now2) = now2"
  by (simp_all add: validateControlTest_def Let_def)

lemma Validate_element:
  assumes "r \<in> set (fst (Validate fmt v clk))"
  shows "\<exists>test now1 now2.
           test \<in> set (controls_validate v) \<and> r = validateControlTest fmt test now1 now2"
proof -
  from assms obtain i where "i < length (controls_validate v)"
    and "r = validateControlTest fmt (controls_validate v ! i) (clk (2 * i)) (clk (2 * i + 1))"
    by (auto simp: Validate_map)
  then show ?thesis
    using nth_mem by blast
qed

text \<open>
  The risk that remains is the binary64 difference \<open>1.0 - 0.8\<close>. The subtraction is exact,
  and the nearest binary64 value to 0.8 lies above 0.8, so the difference lies below 0.2:
  it is \<open>0.19999999999999996\<close>, two units in the last place under the literal \<open>0.2\<close>.
\<close>

lemma risk_value: "fsub (fl 1) (fl (8 / 10)) = 900719925474099 / 4503599627370496"
  by code_simp

lemma risk_sum: "fadd (fsub (fl 1) (fl (8 / 10))) (fl (8 / 10)) = fl 1"
  by code_simp

lemma risk_sum_exact: "fsub (fl 1) (fl (8 / 10)) + fl (8 / 10) = 1"
  by code_simp

text \<open>
  Claim C4, as amended. \<^verbatim>\<open>Validate\<close> returns one result per held test, in the order of the
  tests: the \<open>i\<close>-th result is \<^verbatim>\<open>validateControlTest\<close> of the \<open>i\<close>-th test. Every result
  has \<^verbatim>\<open>TestPassed\<close> true, the label \<^verbatim>\<open>PASS\<close> (never \<^verbatim>\<open>FAIL\<close>), effectiveness 0.8, no
  recommendation, and as remaining risk the binary64 difference \<open>1.0 - 0.8\<close>, which is
  \<open>900719925474099 / 2^52\<close>.
\<close>

theorem Validate_every_result_passes:
  "length (fst (Validate fmt v clk)) = length (controls_validate v)
   \<and> (\<forall>i<length (controls_validate v).
        fst (Validate fmt v clk) ! i
          = validateControlTest fmt (controls_validate v ! i) (clk (2 * i)) (clk (2 * i + 1)))
   \<and> map ControlID_val (fst (Validate fmt v clk)) = map ID_test (controls_validate v)
   \<and> (\<forall>r\<in>set (fst (Validate fmt v clk)).
        TestPassed r \<and> ValidationResult_val r = ''PASS'' \<and> ValidationResult_val r \<noteq> ''FAIL''
        \<and> Effectiveness_val r = fl (8 / 10)
        \<and> RiskRemaining r = fsub (fl 1) (fl (8 / 10))
        \<and> RiskRemaining r = 900719925474099 / 4503599627370496
        \<and> Recommendations_val r = [])"
proof (intro conjI)
  show "length (fst (Validate fmt v clk)) = length (controls_validate v)"
    by (simp add: Validate_map)
  show "\<forall>i<length (controls_validate v).
        fst (Validate fmt v clk) ! i
          = validateControlTest fmt (controls_validate v ! i) (clk (2 * i)) (clk (2 * i + 1))"
    by (simp add: Validate_map)
  show "map ControlID_val (fst (Validate fmt v clk)) = map ID_test (controls_validate v)"
  proof -
    have "map ControlID_val (fst (Validate fmt v clk))
            = map ID_test (map (\<lambda>i. controls_validate v ! i) [0..<length (controls_validate v)])"
      by (simp add: Validate_map validateControlTest_fields)
    then show ?thesis
      by (simp only: map_nth)
  qed
  show "\<forall>r\<in>set (fst (Validate fmt v clk)).
        TestPassed r \<and> ValidationResult_val r = ''PASS'' \<and> ValidationResult_val r \<noteq> ''FAIL''
        \<and> Effectiveness_val r = fl (8 / 10)
        \<and> RiskRemaining r = fsub (fl 1) (fl (8 / 10))
        \<and> RiskRemaining r = 900719925474099 / 4503599627370496
        \<and> Recommendations_val r = []"
  proof
    fix r assume "r \<in> set (fst (Validate fmt v clk))"
    then obtain test now1 now2 where r: "r = validateControlTest fmt test now1 now2"
      using Validate_element by blast
    show "TestPassed r \<and> ValidationResult_val r = ''PASS'' \<and> ValidationResult_val r \<noteq> ''FAIL''
        \<and> Effectiveness_val r = fl (8 / 10)
        \<and> RiskRemaining r = fsub (fl 1) (fl (8 / 10))
        \<and> RiskRemaining r = 900719925474099 / 4503599627370496
        \<and> Recommendations_val r = []"
      unfolding r validateControlTest_fields risk_value by simp
  qed
qed

theorem Validate_every_result_passes_witness:
  "(0::nat) < length (controls_validate common_tests)
   \<and> fst (Validate example_format common_tests example_now) ! 0
       = validateControlTest example_format (controls_validate common_tests ! 0)
           (example_now (2 * 0)) (example_now (2 * 0 + 1))
   \<and> fst (Validate example_format common_tests example_now) ! 3
       \<in> set (fst (Validate example_format common_tests example_now))
   \<and> ValidationResult_val (fst (Validate example_format common_tests example_now) ! 3) = ''PASS''
   \<and> RiskRemaining (fst (Validate example_format common_tests example_now) ! 3)
       = 900719925474099 / 4503599627370496
   \<and> length (fst (Validate example_format common_tests example_now)) = 4"
proof -
  note inst = Validate_every_result_passes [of example_format common_tests example_now]
  have a: "(0::nat) < length (controls_validate common_tests)"
    by code_simp
  have b: "fst (Validate example_format common_tests example_now) ! 3
       \<in> set (fst (Validate example_format common_tests example_now))"
    by code_simp
  have n: "length (controls_validate common_tests) = 4"
    by code_simp
  have c: "fst (Validate example_format common_tests example_now) ! 0
       = validateControlTest example_format (controls_validate common_tests ! 0)
           (example_now (2 * 0)) (example_now (2 * 0 + 1))"
    by (rule mp [OF spec [OF conjunct1 [OF conjunct2 [OF inst]]] a])
  note each = bspec [OF conjunct2 [OF conjunct2 [OF conjunct2 [OF inst]]] b]
  have d: "ValidationResult_val (fst (Validate example_format common_tests example_now) ! 3)
             = ''PASS''"
    by (rule conjunct1 [OF conjunct2 [OF each]])
  have e: "RiskRemaining (fst (Validate example_format common_tests example_now) ! 3)
       = 900719925474099 / 4503599627370496"
    by (rule each [THEN conjunct2, THEN conjunct2, THEN conjunct2, THEN conjunct2,
                   THEN conjunct2, THEN conjunct1])
  have f: "length (fst (Validate example_format common_tests example_now)) = 4"
    by (rule trans [OF conjunct1 [OF inst] n])
  show ?thesis
    by (intro conjI) (rule a b c d e f)+
qed

text \<open>
  The claim as the specification words it asks for a remaining risk of 0.2. The first
  result for the built-in tests has another value, below the binary64 literal and below
  the rational number.
\<close>

theorem risk_remaining_counterexample:
  "RiskRemaining (fst (Validate example_format common_tests example_now) ! 0) \<noteq> fl (2 / 10)
   \<and> RiskRemaining (fst (Validate example_format common_tests example_now) ! 0) < 2 / 10"
  by code_simp

text \<open>
  Claim C7. In every result of the test registry the remaining risk is the binary64
  difference of 1.0 and the effectiveness of that result, and adding the two gives 1.0,
  in binary64 arithmetic and as rational numbers alike. This holds for
  \<^verbatim>\<open>validateControlTest\<close> and so for every element of what \<^verbatim>\<open>Validate\<close> returns.
\<close>

theorem risk_plus_effectiveness:
  "RiskRemaining (validateControlTest fmt test now1 now2)
     = fsub (fl 1) (Effectiveness_val (validateControlTest fmt test now1 now2))
   \<and> fadd (RiskRemaining (validateControlTest fmt test now1 now2))
          (Effectiveness_val (validateControlTest fmt test now1 now2)) = fl 1
   \<and> RiskRemaining (validateControlTest fmt test now1 now2)
        + Effectiveness_val (validateControlTest fmt test now1 now2) = 1
   \<and> (\<forall>r\<in>set (fst (Validate fmt v clk)).
         RiskRemaining r = fsub (fl 1) (Effectiveness_val r)
         \<and> fadd (RiskRemaining r) (Effectiveness_val r) = fl 1
         \<and> RiskRemaining r + Effectiveness_val r = 1)"
proof -
  have one: "RiskRemaining (validateControlTest f t a b)
               = fsub (fl 1) (Effectiveness_val (validateControlTest f t a b))
             \<and> fadd (RiskRemaining (validateControlTest f t a b))
                    (Effectiveness_val (validateControlTest f t a b)) = fl 1
             \<and> RiskRemaining (validateControlTest f t a b)
                  + Effectiveness_val (validateControlTest f t a b) = 1" for f t a b
    unfolding validateControlTest_fields risk_sum risk_sum_exact by simp
  have "RiskRemaining r = fsub (fl 1) (Effectiveness_val r)
         \<and> fadd (RiskRemaining r) (Effectiveness_val r) = fl 1
         \<and> RiskRemaining r + Effectiveness_val r = 1"
    if "r \<in> set (fst (Validate fmt v clk))" for r
  proof -
    from that obtain t a b where r: "r = validateControlTest fmt t a b"
      using Validate_element by blast
    show ?thesis
      unfolding r by (rule one)
  qed
  with one show ?thesis
    by blast
qed

theorem risk_plus_effectiveness_witness:
  "fst (Validate example_format common_tests example_now) ! 2
       \<in> set (fst (Validate example_format common_tests example_now))
   \<and> fadd (RiskRemaining (fst (Validate example_format common_tests example_now) ! 2))
          (Effectiveness_val (fst (Validate example_format common_tests example_now) ! 2)) = fl 1"
proof -
  have a: "fst (Validate example_format common_tests example_now) ! 2
       \<in> set (fst (Validate example_format common_tests example_now))"
    by code_simp
  note inst = risk_plus_effectiveness
                [of example_format "controls_validate common_tests ! 2" 0 0
                    common_tests example_now]
  note each = bspec [OF conjunct2 [OF conjunct2 [OF conjunct2 [OF inst]]] a]
  have b: "fadd (RiskRemaining (fst (Validate example_format common_tests example_now) ! 2))
          (Effectiveness_val (fst (Validate example_format common_tests example_now) ! 2)) = fl 1"
    by (rule conjunct1 [OF conjunct2 [OF each]])
  show ?thesis
    by (intro conjI) (rule a b)+
qed

text \<open>
  Claim C10. Two tests with the same id and the same name are validated to the same result
  at the same clock readings, whatever their other fields hold; a test whose \<^verbatim>\<open>Passed\<close> flag
  is false is reported as \<^verbatim>\<open>PASS\<close> like any other.
\<close>

theorem validateControlTest_reads_id_and_name_only:
  assumes "ID_test t1 = ID_test t2" and "Name_test t1 = Name_test t2"
  shows "validateControlTest fmt t1 now1 now2 = validateControlTest fmt t2 now1 now2
         \<and> ValidationResult_val (validateControlTest fmt (t1\<lparr>Passed := False\<rparr>) now1 now2)
             = ''PASS''
         \<and> TestPassed (validateControlTest fmt (t1\<lparr>Passed := False\<rparr>) now1 now2)"
  using assms by (simp add: validateControlTest_def Let_def)

theorem validateControlTest_reads_id_and_name_only_witness:
  "ID_test (controls_validate common_tests ! 0) = ID_test unlike_test
   \<and> Name_test (controls_validate common_tests ! 0) = Name_test unlike_test
   \<and> Passed (controls_validate common_tests ! 0) \<noteq> Passed unlike_test
   \<and> Method (controls_validate common_tests ! 0) \<noteq> Method unlike_test
   \<and> validateControlTest example_format (controls_validate common_tests ! 0) 7 8
       = validateControlTest example_format unlike_test 7 8"
proof -
  have a: "ID_test (controls_validate common_tests ! 0) = ID_test unlike_test"
    by code_simp
  have b: "Name_test (controls_validate common_tests ! 0) = Name_test unlike_test"
    by code_simp
  have c: "Passed (controls_validate common_tests ! 0) \<noteq> Passed unlike_test"
    by code_simp
  have d: "Method (controls_validate common_tests ! 0) \<noteq> Method unlike_test"
    by code_simp
  have e: "validateControlTest example_format (controls_validate common_tests ! 0) 7 8
       = validateControlTest example_format unlike_test 7 8"
    by (rule conjunct1 [OF validateControlTest_reads_id_and_name_only [OF a b]])
  show ?thesis
    by (intro conjI) (rule a b c d e)+
qed

section \<open>The result logs\<close>







section \<open>The confidence of a validated control\<close>











end
